theory Spec2Isabelle
  imports Main "HOL-Library.Char_ord" "HOL-Library.List_Lexorder"
begin

section \<open>The consistency analysis of \<open>showdataset\<close> (src/admix/showrun.py)\<close>

text \<open>
  Step 2 of \<open>showdataset\<close> fills one dictionary per RSE with the keys
  \<open>name\<close>, \<open>DBentries\<close>, \<open>DBStatus\<close>, \<open>RucioExists\<close> and \<open>RucioNFiles\<close>;
  step 3 reads it. The numbers are Python integers.
\<close>

record rse_info =
  name :: string
  DBentries :: int
  DBStatus :: string
  RucioExists :: bool
  RucioNFiles :: int

text \<open>
  The run-database datum of the event builder, as far as step 3 depends on it: the keys
  \<open>file_count\<close> and \<open>status\<close>, either of which may be missing.
\<close>

record eb_datum =
  file_count :: "int option"
  status :: "string option"

text \<open>Lines 225-227: \<open>Nfiles = -1\<close>, replaced by \<open>datum['file_count']\<close> when the key is there.\<close>

definition Nfiles_of :: "eb_datum \<Rightarrow> int" where
  "Nfiles_of datum = (case file_count datum of None \<Rightarrow> - 1 | Some n \<Rightarrow> n)"

text \<open>Lines 234-236: \<open>ebstatus = ""\<close>, replaced by \<open>datum['status']\<close> when the key is there.\<close>

definition ebstatus_of :: "eb_datum \<Rightarrow> string" where
  "ebstatus_of datum = (case status datum of None \<Rightarrow> [] | Some s \<Rightarrow> s)"

text \<open>
  Lines 323-324: \<open>rse['RucioExists'] = rucio_rule['exists']\<close> and
  \<open>rse['RucioNFiles'] = len(replicas)\<close>.
\<close>

definition fill_rucio_info :: "rse_info \<Rightarrow> bool \<Rightarrow> 'r list \<Rightarrow> rse_info" where
  "fill_rucio_info rse rule_exists replicas =
     rse\<lparr>RucioExists := rule_exists, RucioNFiles := int (length replicas)\<rparr>"

text \<open>
  Every warning that step 3 prints is one value: which of the \<open>if\<close> statements printed
  it, the DID it names, and the hint commands printed below it. The warning of the
  \<open>else\<close> branch prints the whole RSE dictionary instead of hints.
\<close>

datatype warning_kind =
    RuleNotCreated
  | DBNotUpdated
  | RulesAbroadMissing
  | UploadNeverStarted
  | CopiesAbroad
  | UploadInterrupted
  | Inconsistent

datatype warning =
    Upload_warning warning_kind string "string list"
  | Inconsistent_warning string rse_info

fun kind :: "warning \<Rightarrow> warning_kind" where
  "kind (Upload_warning k d hs) = k"
| "kind (Inconsistent_warning d r) = Inconsistent"

text \<open>
  Lines 335-380, the branch \<open>rse['name'] == UPLOAD_TO\<close>: six \<open>if\<close> statements in a
  row, none of them an \<open>elif\<close>, so each one whose condition holds prints its warning.
\<close>

definition analyse_upload :: "string \<Rightarrow> int \<Rightarrow> string \<Rightarrow> string list \<Rightarrow> rse_info \<Rightarrow> warning list" where
  "analyse_upload did Nfiles ebstatus rses_with_data rse =
     (if RucioNFiles rse = Nfiles \<and> \<not> RucioExists rse \<and> DBStatus rse = [] \<and> DBentries rse = 0
         \<and> length rses_with_data = 0
      then [Upload_warning RuleNotCreated did
              [''rucio add-rule '' @ did @ '' 1 '' @ name rse,
               ''admix-fix --fix_upload_db '' @ did,
               ''admix-fix --create_upload_rules '' @ did]]
      else []) @
     (if RucioNFiles rse = Nfiles \<and> RucioExists rse \<and> DBStatus rse = [] \<and> DBentries rse = 0
         \<and> length rses_with_data = 1
      then [Upload_warning DBNotUpdated did
              [''admix-fix --fix_upload_db '' @ did,
               ''admix-fix --create_upload_rules '' @ did]]
      else []) @
     (if RucioNFiles rse = Nfiles \<and> RucioExists rse \<and> DBStatus rse = ''transferred''
         \<and> DBentries rse = 1 \<and> length rses_with_data = 1
      then [Upload_warning RulesAbroadMissing did
              [''admix-fix --create_upload_rules '' @ did]]
      else []) @
     (if RucioNFiles rse = 0 \<and> \<not> RucioExists rse \<and> DBStatus rse = [] \<and> DBentries rse = 0
         \<and> length rses_with_data = 0 \<and> ebstatus \<notin> set [[], ''transferred'']
      then [Upload_warning UploadNeverStarted did
              [''admix-fix --set_eb_status '' @ did @ '' eb_ready_to_upload'']]
      else []) @
     (if RucioNFiles rse = Nfiles \<and> RucioExists rse \<and> DBStatus rse = ''transferred''
         \<and> DBentries rse = 1 \<and> length rses_with_data > 0 \<and> ebstatus \<notin> set [[], ''transferred'']
      then [Upload_warning CopiesAbroad did
              [''admix-fix --set_eb_status '' @ did @ '' transferred'']]
      else []) @
     (if RucioNFiles rse \<noteq> Nfiles \<and> RucioExists rse \<and> DBStatus rse = [] \<and> DBentries rse = 0
         \<and> length rses_with_data = 1 \<and> ebstatus = ''transferring''
      then [Upload_warning UploadInterrupted did
              [''admix-fix --fix_upload '' @ did]]
      else [])"

text \<open>Lines 383-390, the \<open>else\<close> branch for every other RSE.\<close>

definition analyse_other :: "string \<Rightarrow> int \<Rightarrow> rse_info \<Rightarrow> warning list" where
  "analyse_other did Nfiles rse =
     (if \<not> ((RucioNFiles rse = Nfiles \<and> RucioExists rse \<and> DBentries rse = 1
               \<and> DBStatus rse = ''transferred'')
             \<or> (RucioNFiles rse = 0 \<and> \<not> RucioExists rse \<and> DBentries rse = 0
               \<and> DBStatus rse \<noteq> ''transferred''))
      then [Inconsistent_warning did rse]
      else [])"

text \<open>
  One round of the loop of step 3 (line 328). \<open>UPLOAD_TO\<close> is read from the host
  configuration when the module is loaded, so it is a parameter here.
\<close>

definition analyse_rse ::
  "string \<Rightarrow> string \<Rightarrow> eb_datum \<Rightarrow> string list \<Rightarrow> rse_info \<Rightarrow> warning list" where
  "analyse_rse UPLOAD_TO did datum rses_with_data rse =
     (if name rse = UPLOAD_TO
      then analyse_upload did (Nfiles_of datum) (ebstatus_of datum) rses_with_data rse
      else analyse_other did (Nfiles_of datum) rse)"

text \<open>Step 3 as a whole: the warnings of all RSEs, in the order they are printed.\<close>

definition analyse_rses ::
  "string \<Rightarrow> string \<Rightarrow> eb_datum \<Rightarrow> string list \<Rightarrow> rse_info list \<Rightarrow> warning list" where
  "analyse_rses UPLOAD_TO did datum rses_with_data rses =
     concat (map (analyse_rse UPLOAD_TO did datum rses_with_data) rses)"


section \<open>The deletion daemon (src/admix/daemons/delete.py)\<close>

text \<open>The exceptions that the methods of \<open>DeleteDaemon\<close> can raise.\<close>

datatype error =
    KeyError string
  | IndexError
  | ValueError
  | OverflowError
  | NameError string
  | NotImplementedError

text \<open>
  The attributes of a \<open>DeleteDaemon\<close>. The four arrays are set by \<open>__init__\<close>;
  \<open>rse_dict\<close> is set by \<open>build_rse_storage_dict\<close>, which \<open>find_priority\<close> calls
  before it reads the dictionary.
\<close>

record daemon =
  tagged_on_rse :: "string list"
  tagged_dids :: "string list"
  to_delete_on_rse :: "string list"
  to_delete_dids :: "string list"
  rse_dict :: "string \<rightharpoonup> int"

text \<open>Lines 14-20: every array starts as \<open>np.array([])\<close>.\<close>

definition init_daemon :: daemon where
  "init_daemon = \<lparr>tagged_on_rse = [], tagged_dids = [], to_delete_on_rse = [],
     to_delete_dids = [], rse_dict = Map.empty\<rparr>"

subsection \<open>The Rucio client\<close>

text \<open>
  What \<open>admix.rucio\<close> answers: the names \<open>list_rses()\<close> returns, the
  \<open>bytes_remaining\<close> of \<open>get_account_usage\<close> and the result of \<open>get_size_mb\<close>.
  The calls a method makes are returned in order, so that a call which never happens is
  visibly absent.
\<close>

record rucio =
  list_rses :: "string list"
  bytes_remaining :: "string \<Rightarrow> int"
  get_size_mb :: "string \<Rightarrow> int"

datatype rucio_call =
    List_rses
  | Get_account_usage string
  | Get_size_mb string
  | Delete_rule string string

text \<open>Lines 22-30.\<close>

definition build_rse_storage_dict :: "rucio \<Rightarrow> daemon \<Rightarrow> daemon \<times> rucio_call list" where
  "build_rse_storage_dict rc self =
     (self\<lparr>rse_dict :=
         fold (\<lambda>rse_name dict. dict(rse_name \<mapsto> bytes_remaining rc rse_name))
           (list_rses rc) Map.empty\<rparr>,
      List_rses # map Get_account_usage (list_rses rc))"

subsection \<open>The numpy operations of \<open>find_priority\<close>\<close>

text \<open>\<open>np.unique\<close>: the sorted distinct elements.\<close>

definition np_unique :: "string list \<Rightarrow> string list" where
  "np_unique arr = sort (remdups arr)"

text \<open>
  Indexing with a boolean mask, \<open>arr[mask]\<close>: the elements where the mask is true;
  an \<open>IndexError\<close> when the mask and the array differ in length.
\<close>

definition mask_select :: "'a list \<Rightarrow> bool list \<Rightarrow> error + 'a list" where
  "mask_select arr msk =
     (if length msk \<noteq> length arr then Inl IndexError
      else Inr (map fst (filter snd (zip arr msk))))"

text \<open>
  \<open>remaining_storage = np.zeros(len(rses))\<close> is an array of double-precision floats, so
  \<open>remaining_storage[j] = int(bytes_remaining)\<close> stores the integer rounded to the
  nearest double (ties to even), and raises \<open>OverflowError\<close> when that is not finite.
  Every double that comes from an integer is an integer again, so the stored value is
  given as one: below \<open>2 ^ 53\<close> it is the integer itself; above, the integer is cut to
  its 53 leading bits.
\<close>

fun bit_length :: "nat \<Rightarrow> nat" where
  "bit_length n = (if n = 0 then 0 else Suc (bit_length (n div 2)))"

declare bit_length.simps [simp del]

definition float64_of_int :: "int \<Rightarrow> error + int" where
  "float64_of_int n =
     (let a = nat \<bar>n\<bar> in
      if a < 2 ^ 53 then Inr n
      else
        let e = bit_length a - 53;
            q = a div 2 ^ e;
            r = a mod 2 ^ e;
            q' = (if 2 * r > 2 ^ e \<or> (2 * r = 2 ^ e \<and> odd q) then q + 1 else q)
        in if q' * 2 ^ e \<ge> 2 ^ 1024 then Inl OverflowError
           else Inr (sgn n * int (q' * 2 ^ e)))"

text \<open>Lines 49-54: the inner loop that fills \<open>remaining_storage\<close>.\<close>

fun remaining_storage_of :: "(string \<rightharpoonup> int) \<Rightarrow> string list \<Rightarrow> error + int list" where
  "remaining_storage_of dict [] = Inr []"
| "remaining_storage_of dict (rse # rses) =
     (case dict rse of
        None \<Rightarrow> Inl (KeyError rse)
      | Some remaining \<Rightarrow>
          (case float64_of_int remaining of
             Inl e \<Rightarrow> Inl e
           | Inr stored \<Rightarrow>
               (case remaining_storage_of dict rses of
                  Inl e \<Rightarrow> Inl e
                | Inr remaining_storage \<Rightarrow> Inr (stored # remaining_storage))))"

text \<open>
  \<open>np.argmax\<close>: the index of the first occurrence of the maximum; a \<open>ValueError\<close> on
  an empty array.
\<close>

definition np_argmax :: "int list \<Rightarrow> error + nat" where
  "np_argmax arr =
     (if arr = [] then Inl ValueError
      else Inr (length (takeWhile (\<lambda>x. x \<noteq> Max (set arr)) arr)))"

subsection \<open>\<open>find_priority\<close>\<close>

text \<open>
  Lines 47-61, one round of the loop over the unique tagged DIDs: the RSE that is kept
  (\<open>max_rse\<close>) and the RSEs appended to \<open>to_delete_on_rse\<close> for this DID.
\<close>

definition priority_step :: "daemon \<Rightarrow> string \<Rightarrow> error + string \<times> string list" where
  "priority_step self d =
     (case mask_select (tagged_on_rse self) (map (\<lambda>x. x = d) (tagged_dids self)) of
        Inl e \<Rightarrow> Inl e
      | Inr rses \<Rightarrow>
          (case remaining_storage_of (rse_dict self) rses of
             Inl e \<Rightarrow> Inl e
           | Inr remaining_storage \<Rightarrow>
               (case np_argmax remaining_storage of
                  Inl e \<Rightarrow> Inl e
                | Inr k \<Rightarrow>
                    (let max_rse = rses ! k
                     in Inr (max_rse, filter (\<lambda>rse. rse \<noteq> max_rse) rses)))))"

text \<open>Line 46: the loop, with the two local lists \<open>to_delete_dids\<close> and \<open>to_delete_on_rse\<close>.\<close>

fun priority_loop ::
  "daemon \<Rightarrow> string list \<Rightarrow> string list \<times> string list \<Rightarrow> error + string list \<times> string list" where
  "priority_loop self [] acc = Inr acc"
| "priority_loop self (d # ds) (dids, on_rse) =
     (case priority_step self d of
        Inl e \<Rightarrow> Inl e
      | Inr (max_rse, del) \<Rightarrow>
          priority_loop self ds (dids @ map (\<lambda>rse. d) del, on_rse @ del))"

text \<open>
  Lines 32-64. The result is the daemon after the call, the Rucio calls made, and the
  exception if one was raised; an exception leaves the loop before lines 63-64, so the
  two \<open>to_delete\<close> attributes keep their old values.
\<close>

definition find_priority :: "rucio \<Rightarrow> daemon \<Rightarrow> daemon \<times> rucio_call list \<times> error option" where
  "find_priority rc self0 =
     (let unique_tagged_dids = np_unique (tagged_dids self0);
          (self, calls) = build_rse_storage_dict rc self0
      in case priority_loop self unique_tagged_dids ([], []) of
           Inl e \<Rightarrow> (self, calls, Some e)
         | Inr (dids, on_rse) \<Rightarrow>
             (self\<lparr>to_delete_on_rse := on_rse, to_delete_dids := dids\<rparr>, calls, None))"

subsection \<open>\<open>find_single_copy\<close>\<close>

text \<open>
  A run document of the run database, as far as the scan reads it: the names of its
  tags and its \<open>data\<close> list, which may be missing; and an entry of that list with its
  \<open>did\<close> and \<open>location\<close>, either of which may be missing.
\<close>

record data_entry =
  entry_did :: "string option"
  entry_location :: "string option"

record run_doc =
  tag_names :: "string list"
  run_data :: "data_entry list option"

text \<open>\<open>str.split\<close> with a separator of one character.\<close>

fun split_chr :: "char \<Rightarrow> string \<Rightarrow> string list" where
  "split_chr c [] = [[]]"
| "split_chr c (x # xs) =
     (if x = c then [] # split_chr c xs
      else (case split_chr c xs of
              [] \<Rightarrow> [[x]]
            | w # ws \<Rightarrow> (x # w) # ws))"

text \<open>
  \<open>np.append(arr, v)\<close> returns a new array with \<open>v\<close> at the end and leaves \<open>arr\<close>
  as it is.
\<close>

definition np_append :: "'a list \<Rightarrow> 'a \<Rightarrow> 'a list" where
  "np_append arr v = arr @ [v]"

text \<open>
  Lines 97-98 and 102-103: two calls of \<open>np.append\<close> as statements. Their results are
  bound to nothing, and the attributes are not assigned.
\<close>

definition tag_pair :: "daemon \<Rightarrow> string \<Rightarrow> string \<Rightarrow> daemon" where
  "tag_pair self d_did d_location =
     (let r1 = np_append (tagged_dids self) d_did;
          r2 = np_append (tagged_on_rse self) d_location
      in self)"

text \<open>
  Lines 91-103, the body of the \<open>try\<close>. \<open>utils.RAW_DTYPES\<close> is defined in another
  module, so it is a parameter.
\<close>

definition try_tag ::
  "string list \<Rightarrow> bool \<Rightarrow> string list \<Rightarrow> daemon \<Rightarrow> data_entry \<Rightarrow> string \<Rightarrow> error + daemon" where
  "try_tag RAW_DTYPES raw_type_only exclude_rses self d d_did =
     (case split_chr CHR '':'' d_did of
        s0 # s1 # rest \<Rightarrow>
          (case split_chr CHR ''-'' s1 of
             [] \<Rightarrow> Inl IndexError
           | dtype # rest' \<Rightarrow>
               if raw_type_only then
                 (if dtype \<in> set RAW_DTYPES then
                    (case entry_location d of
                       None \<Rightarrow> Inl (KeyError ''location'')
                     | Some loc \<Rightarrow>
                         if \<not> (loc \<in> set exclude_rses) then Inr (tag_pair self d_did loc)
                         else Inr self)
                  else Inr self)
               else
                 (case entry_location d of
                    None \<Rightarrow> Inl (KeyError ''location'')
                  | Some loc \<Rightarrow>
                      if loc \<notin> set exclude_rses then Inr (tag_pair self d_did loc)
                      else Inr self))
      | _ \<Rightarrow> Inl IndexError)"

text \<open>
  Lines 89-108, one entry of \<open>cursor['data']\<close>: \<open>d.get('did')\<close> is false for a
  missing or empty DID, and the bare \<open>except\<close> swallows every exception of the body.
\<close>

definition tag_datum ::
  "string list \<Rightarrow> bool \<Rightarrow> string list \<Rightarrow> daemon \<Rightarrow> data_entry \<Rightarrow> daemon" where
  "tag_datum RAW_DTYPES raw_type_only exclude_rses self d =
     (case entry_did d of
        None \<Rightarrow> self
      | Some d_did \<Rightarrow>
          if d_did = [] then self
          else (case try_tag RAW_DTYPES raw_type_only exclude_rses self d d_did of
                  Inl e \<Rightarrow> self
                | Inr self' \<Rightarrow> self'))"

text \<open>
  Lines 84-108, the loop over \<open>range(n_tagged)\<close>. \<open>cursor['data']\<close> is read outside
  the \<open>try\<close>, so a run without \<open>data\<close> raises a \<open>KeyError\<close> that ends the scan.
\<close>

fun tag_runs ::
  "string list \<Rightarrow> bool \<Rightarrow> string list \<Rightarrow> run_doc list \<Rightarrow> daemon \<Rightarrow> nat list
     \<Rightarrow> daemon \<times> error option" where
  "tag_runs RAW_DTYPES raw_type_only exclude_rses found self [] = (self, None)"
| "tag_runs RAW_DTYPES raw_type_only exclude_rses found self (i # idxs) =
     (case run_data (found ! i) of
        None \<Rightarrow> (self, Some (KeyError ''data''))
      | Some ds \<Rightarrow>
          tag_runs RAW_DTYPES raw_type_only exclude_rses found
            (fold (\<lambda>d s. tag_datum RAW_DTYPES raw_type_only exclude_rses s d) ds self) idxs)"

text \<open>
  Lines 79-108: the runs that have a tag named \<open>_single_copy\<close> are counted, and the
  loop takes them by index.
\<close>

definition tag_scan ::
  "run_doc list \<Rightarrow> string list \<Rightarrow> bool \<Rightarrow> string list \<Rightarrow> daemon \<Rightarrow> daemon \<times> error option" where
  "tag_scan collection RAW_DTYPES raw_type_only exclude_rses self =
     (let found = filter (\<lambda>run. ''_single_copy'' \<in> set (tag_names run)) collection;
          n_tagged = length found
      in tag_runs RAW_DTYPES raw_type_only exclude_rses found self [0..<n_tagged])"

text \<open>
  Lines 66-110. The last line evaluates \<open>len(tagged_dids)\<close>; the method has no local
  of that name (only the attribute \<open>self.tagged_dids\<close>), and the module binds only
  \<open>pymongo\<close>, \<open>tqdm\<close>, \<open>xent_collection\<close>, \<open>utils\<close>, \<open>rucio\<close>, \<open>np\<close> and
  \<open>DeleteDaemon\<close>, so reading it raises a \<open>NameError\<close>.
\<close>

definition find_single_copy ::
  "run_doc list \<Rightarrow> string list \<Rightarrow> bool \<Rightarrow> string list \<Rightarrow> daemon \<Rightarrow> daemon \<times> error option" where
  "find_single_copy collection RAW_DTYPES raw_type_only exclude_rses self =
     (case tag_scan collection RAW_DTYPES raw_type_only exclude_rses self of
        (self', Some e) \<Rightarrow> (self', Some e)
      | (self', None) \<Rightarrow> (self', Some (NameError ''tagged_dids'')))"

subsection \<open>\<open>do_task\<close>\<close>

text \<open>
  Lines 119-125: the loop over \<open>range(len(self.to_delete_dids))\<close>, with the two Rucio
  calls of each round.
\<close>

fun delete_loop :: "daemon \<Rightarrow> nat list \<Rightarrow> rucio_call list \<times> error option" where
  "delete_loop self [] = ([], None)"
| "delete_loop self (i # idxs) =
     (if i < length (to_delete_on_rse self)
      then (case delete_loop self idxs of
              (calls, e) \<Rightarrow>
                (Get_size_mb (to_delete_dids self ! i)
                 # Delete_rule (to_delete_dids self ! i) (to_delete_on_rse self ! i)
                 # calls, e))
      else ([], Some IndexError))"

text \<open>Lines 112-128.\<close>

definition do_task ::
  "rucio \<Rightarrow> run_doc list \<Rightarrow> string list \<Rightarrow> string \<Rightarrow> bool \<Rightarrow> string list \<Rightarrow> daemon
     \<Rightarrow> daemon \<times> rucio_call list \<times> error option" where
  "do_task rc collection RAW_DTYPES mode raw_type_only exclude_rses self =
     (if mode = ''single_copy'' then
        (case find_single_copy collection RAW_DTYPES raw_type_only exclude_rses self of
           (self1, Some e) \<Rightarrow> (self1, [], Some e)
         | (self1, None) \<Rightarrow>
             (case find_priority rc self1 of
                (self2, calls, Some e) \<Rightarrow> (self2, calls, Some e)
              | (self2, calls, None) \<Rightarrow>
                  (case delete_loop self2 [0..<length (to_delete_dids self2)] of
                     (calls', e) \<Rightarrow> (self2, calls @ calls', e))))
      else (self, [], Some NotImplementedError))"


section \<open>Properties of the consistency analysis\<close>

lemmas analyse_defs =
  analyse_rse_def analyse_upload_def analyse_other_def Nfiles_of_def ebstatus_of_def

text \<open>The kinds of the warnings of the upload branch, one optional entry per \<open>if\<close>.\<close>

lemma kinds_analyse_upload:
  "map kind (analyse_upload did Nfiles ebstatus rses_with_data rse) =
     (if RucioNFiles rse = Nfiles \<and> \<not> RucioExists rse \<and> DBStatus rse = [] \<and> DBentries rse = 0
         \<and> length rses_with_data = 0 then [RuleNotCreated] else []) @
     (if RucioNFiles rse = Nfiles \<and> RucioExists rse \<and> DBStatus rse = [] \<and> DBentries rse = 0
         \<and> length rses_with_data = 1 then [DBNotUpdated] else []) @
     (if RucioNFiles rse = Nfiles \<and> RucioExists rse \<and> DBStatus rse = ''transferred''
         \<and> DBentries rse = 1 \<and> length rses_with_data = 1 then [RulesAbroadMissing] else []) @
     (if RucioNFiles rse = 0 \<and> \<not> RucioExists rse \<and> DBStatus rse = [] \<and> DBentries rse = 0
         \<and> length rses_with_data = 0 \<and> ebstatus \<notin> set [[], ''transferred'']
      then [UploadNeverStarted] else []) @
     (if RucioNFiles rse = Nfiles \<and> RucioExists rse \<and> DBStatus rse = ''transferred''
         \<and> DBentries rse = 1 \<and> length rses_with_data > 0 \<and> ebstatus \<notin> set [[], ''transferred'']
      then [CopiesAbroad] else []) @
     (if RucioNFiles rse \<noteq> Nfiles \<and> RucioExists rse \<and> DBStatus rse = [] \<and> DBentries rse = 0
         \<and> length rses_with_data = 1 \<and> ebstatus = ''transferring''
      then [UploadInterrupted] else [])"
  unfolding analyse_upload_def by simp

text \<open>
  Six conditions of which only the first and fourth, and the third and fifth, can hold
  together leave nine possible lists of kinds.
\<close>

lemma kinds_cases:
  assumes "ks = (if c1 then [RuleNotCreated] else []) @ (if c2 then [DBNotUpdated] else []) @
      (if c3 then [RulesAbroadMissing] else []) @ (if c4 then [UploadNeverStarted] else []) @
      (if c5 then [CopiesAbroad] else []) @ (if c6 then [UploadInterrupted] else [])"
    and "\<not> (c1 \<and> c2)" "\<not> (c1 \<and> c3)" "\<not> (c1 \<and> c5)" "\<not> (c1 \<and> c6)"
    and "\<not> (c2 \<and> c3)" "\<not> (c2 \<and> c4)" "\<not> (c2 \<and> c5)" "\<not> (c2 \<and> c6)"
    and "\<not> (c3 \<and> c4)" "\<not> (c3 \<and> c6)" "\<not> (c4 \<and> c5)" "\<not> (c4 \<and> c6)" "\<not> (c5 \<and> c6)"
  shows "ks \<in> set [[], [RuleNotCreated], [DBNotUpdated], [RulesAbroadMissing], [UploadNeverStarted],
            [CopiesAbroad], [UploadInterrupted], [RuleNotCreated, UploadNeverStarted],
            [RulesAbroadMissing, CopiesAbroad]]"
  using assms by (cases c1; cases c2; cases c3; cases c4; cases c5; cases c6; simp)

subsection \<open>C1: the patterns of the upload branch are not mutually exclusive\<close>

text \<open>
  C1 as stated fails. At the upload RSE, with all 10 files in Rucio, the rule there, one
  database entry with status \<open>transferred\<close>, exactly one rule in Rucio and the event
  builder's status \<open>transferring\<close>, the third \<open>if\<close> (rules abroad missing) and the
  fifth \<open>if\<close> (copies abroad, flag the datum as transferred) both print their warning:
  \<open>len(rses_with_data) == 1\<close> and \<open>len(rses_with_data) > 0\<close> hold together.
\<close>

theorem upload_patterns_overlap:
  "map kind (analyse_rse ''LNGS_USERDISK'' ''xnt_007330:raw_records-rfzvpzj4mf''
      \<lparr>file_count = Some 10, status = Some ''transferring''\<rparr> [''LNGS_USERDISK'']
      \<lparr>name = ''LNGS_USERDISK'', DBentries = 1, DBStatus = ''transferred'',
        RucioExists = True, RucioNFiles = 10\<rparr>) = [RulesAbroadMissing, CopiesAbroad]"
  by (simp add: analyse_defs)

text \<open>
  C1, amended: for every RSE dictionary whose name is the upload RSE and every datum, the
  analysis prints at most two warnings, and the kinds printed are one of nine lists: none,
  one of the six patterns alone, pattern 1 together with pattern 4, or pattern 3 together
  with the mark-transferred pattern. Every other pair of patterns is mutually exclusive.
\<close>

theorem upload_warnings_at_most_two:
  assumes "name rse = UPLOAD_TO"
  shows "length (analyse_rse UPLOAD_TO did datum rses_with_data rse) \<le> 2
    \<and> map kind (analyse_rse UPLOAD_TO did datum rses_with_data rse)
       \<in> set [[], [RuleNotCreated], [DBNotUpdated], [RulesAbroadMissing], [UploadNeverStarted],
            [CopiesAbroad], [UploadInterrupted], [RuleNotCreated, UploadNeverStarted],
            [RulesAbroadMissing, CopiesAbroad]]"
proof -
  let ?ws = "analyse_rse UPLOAD_TO did datum rses_with_data rse"
  have eq: "?ws = analyse_upload did (Nfiles_of datum) (ebstatus_of datum) rses_with_data rse"
    using assms by (simp add: analyse_rse_def)
  have mem: "map kind ?ws
       \<in> set [[], [RuleNotCreated], [DBNotUpdated], [RulesAbroadMissing], [UploadNeverStarted],
            [CopiesAbroad], [UploadInterrupted], [RuleNotCreated, UploadNeverStarted],
            [RulesAbroadMissing, CopiesAbroad]]"
    unfolding eq
    by (rule kinds_cases [OF kinds_analyse_upload]) simp_all
  have "length (map kind ?ws) \<le> 2"
    using mem by auto
  then show ?thesis
    using mem by simp
qed

theorem upload_warnings_at_most_two_witness:
  "length (analyse_rse ''LNGS_USERDISK'' ''xnt_007330:raw_records-rfzvpzj4mf''
      \<lparr>file_count = Some 10, status = Some ''transferred''\<rparr> [''LNGS_USERDISK'']
      \<lparr>name = ''LNGS_USERDISK'', DBentries = 1, DBStatus = ''transferred'',
        RucioExists = True, RucioNFiles = 10\<rparr>) = 1"
  using upload_warnings_at_most_two [of "\<lparr>name = ''LNGS_USERDISK'', DBentries = 1,
        DBStatus = ''transferred'', RucioExists = True, RucioNFiles = 10\<rparr>" "''LNGS_USERDISK''"
        "''xnt_007330:raw_records-rfzvpzj4mf''"
        "\<lparr>file_count = Some 10, status = Some ''transferred''\<rparr>" "[''LNGS_USERDISK'']"]
  by (simp add: analyse_defs)

subsection \<open>C4: the branch of the other RSEs\<close>

text \<open>
  C4: for an RSE other than the upload RSE the analysis prints nothing exactly when either
  (the Rucio file count equals the expected one, the rule exists, there is one database
  entry and its status is \<open>transferred\<close>) or (no file in Rucio, no rule, no database entry
  and a status other than \<open>transferred\<close>); in every other case it prints exactly one
  warning, the generic one, which carries the whole RSE dictionary.
\<close>

theorem other_rse_healthy_iff:
  "name rse \<noteq> UPLOAD_TO \<Longrightarrow>
   analyse_rse UPLOAD_TO did datum rses_with_data rse =
     (if (RucioNFiles rse = Nfiles_of datum \<and> RucioExists rse \<and> DBentries rse = 1
            \<and> DBStatus rse = ''transferred'')
         \<or> (RucioNFiles rse = 0 \<and> \<not> RucioExists rse \<and> DBentries rse = 0
            \<and> DBStatus rse \<noteq> ''transferred'')
      then [] else [Inconsistent_warning did rse])"
  by (simp add: analyse_rse_def analyse_other_def)

theorem other_rse_healthy_iff_witness:
  "analyse_rse ''LNGS_USERDISK'' ''xnt_007330:raw_records-rfzvpzj4mf''
      \<lparr>file_count = Some 5, status = Some ''transferred''\<rparr> [''LNGS_USERDISK'', ''UC_OSG_USERDISK'']
      \<lparr>name = ''UC_OSG_USERDISK'', DBentries = 1, DBStatus = ''transferred'',
        RucioExists = True, RucioNFiles = 5\<rparr> = []
   \<and> analyse_rse ''LNGS_USERDISK'' ''xnt_007330:raw_records-rfzvpzj4mf''
      \<lparr>file_count = Some 5, status = Some ''transferred''\<rparr> [''LNGS_USERDISK'']
      \<lparr>name = ''UC_OSG_USERDISK'', DBentries = 1, DBStatus = ''transferred'',
        RucioExists = False, RucioNFiles = 0\<rparr>
     = [Inconsistent_warning ''xnt_007330:raw_records-rfzvpzj4mf''
          \<lparr>name = ''UC_OSG_USERDISK'', DBentries = 1, DBStatus = ''transferred'',
            RucioExists = False, RucioNFiles = 0\<rparr>]"
  using other_rse_healthy_iff [of "\<lparr>name = ''UC_OSG_USERDISK'', DBentries = 1,
        DBStatus = ''transferred'', RucioExists = True, RucioNFiles = 5\<rparr>" "''LNGS_USERDISK''"
        "''xnt_007330:raw_records-rfzvpzj4mf''"
        "\<lparr>file_count = Some 5, status = Some ''transferred''\<rparr>"
        "[''LNGS_USERDISK'', ''UC_OSG_USERDISK'']"]
     other_rse_healthy_iff [of "\<lparr>name = ''UC_OSG_USERDISK'', DBentries = 1,
        DBStatus = ''transferred'', RucioExists = False, RucioNFiles = 0\<rparr>" "''LNGS_USERDISK''"
        "''xnt_007330:raw_records-rfzvpzj4mf''"
        "\<lparr>file_count = Some 5, status = Some ''transferred''\<rparr>" "[''LNGS_USERDISK'']"]
  by (simp add: Nfiles_of_def)

subsection \<open>C8: files uploaded, rule never created\<close>

text \<open>
  C8 as stated fails where both file counts are 0: with no file expected and none in
  Rucio, no rule, no database entry, no rule anywhere and the event builder's status
  \<open>transferring\<close>, the first \<open>if\<close> and the fourth \<open>if\<close> (upload never started) both
  print their warning.
\<close>

theorem rule_not_created_with_never_started:
  "map kind (analyse_rse ''LNGS_USERDISK'' ''xnt_007330:raw_records-rfzvpzj4mf''
      \<lparr>file_count = Some 0, status = Some ''transferring''\<rparr> []
      \<lparr>name = ''LNGS_USERDISK'', DBentries = 0, DBStatus = [],
        RucioExists = False, RucioNFiles = 0\<rparr>) = [RuleNotCreated, UploadNeverStarted]"
  by (simp add: analyse_defs)

text \<open>
  C8, amended: at the upload RSE, with the Rucio file count equal to the expected one, no
  rule, an empty database status, no database entry and no rule in Rucio at all, the
  analysis prints the pattern-1 warning (files uploaded, rule not created), whose first
  hint is the command that creates the rule; it is the only warning unless both file
  counts are 0 and the event builder's status is neither empty nor \<open>transferred\<close>, where
  the pattern-4 warning follows it.
\<close>

theorem rule_not_created_pattern:
  assumes "name rse = UPLOAD_TO"
    and "RucioNFiles rse = Nfiles_of datum" and "\<not> RucioExists rse"
    and "DBStatus rse = []" and "DBentries rse = 0" and "rses_with_data = []"
  shows "analyse_rse UPLOAD_TO did datum rses_with_data rse =
     Upload_warning RuleNotCreated did
        [''rucio add-rule '' @ did @ '' 1 '' @ name rse,
         ''admix-fix --fix_upload_db '' @ did,
         ''admix-fix --create_upload_rules '' @ did]
     # (if Nfiles_of datum = 0 \<and> ebstatus_of datum \<noteq> [] \<and> ebstatus_of datum \<noteq> ''transferred''
        then [Upload_warning UploadNeverStarted did
                [''admix-fix --set_eb_status '' @ did @ '' eb_ready_to_upload'']]
        else [])"
  using assms by (simp add: analyse_rse_def analyse_upload_def)

theorem rule_not_created_pattern_witness:
  "analyse_rse ''LNGS_USERDISK'' ''xnt_007330:raw_records-rfzvpzj4mf''
      \<lparr>file_count = Some 10, status = Some ''transferring''\<rparr> []
      \<lparr>name = ''LNGS_USERDISK'', DBentries = 0, DBStatus = [],
        RucioExists = False, RucioNFiles = 10\<rparr>
   = [Upload_warning RuleNotCreated ''xnt_007330:raw_records-rfzvpzj4mf''
        [''rucio add-rule xnt_007330:raw_records-rfzvpzj4mf 1 LNGS_USERDISK'',
         ''admix-fix --fix_upload_db xnt_007330:raw_records-rfzvpzj4mf'',
         ''admix-fix --create_upload_rules xnt_007330:raw_records-rfzvpzj4mf'']]"
  using rule_not_created_pattern [of "\<lparr>name = ''LNGS_USERDISK'', DBentries = 0, DBStatus = [],
        RucioExists = False, RucioNFiles = 10\<rparr>" "''LNGS_USERDISK''"
        "\<lparr>file_count = Some 10, status = Some ''transferring''\<rparr>" "[]"
        "''xnt_007330:raw_records-rfzvpzj4mf''"]
  by (simp add: Nfiles_of_def)

subsection \<open>C10: a datum without a file count\<close>

text \<open>
  C10: when the datum has no \<open>file_count\<close>, \<open>Nfiles\<close> is -1, while the Rucio file
  count is the length of the list of replicas; so at the upload RSE none of the patterns
  that ask for equal counts (1, 2, 3 and mark-transferred) prints, and the kinds printed
  are none, pattern 4 alone or pattern 5 alone.
\<close>

theorem missing_file_count_patterns:
  assumes "name rse = UPLOAD_TO" and "file_count datum = None"
  shows "map kind (analyse_rse UPLOAD_TO did datum rses_with_data
            (fill_rucio_info rse rule_exists replicas))
         \<in> set [[], [UploadNeverStarted], [UploadInterrupted]]"
  using assms
  by (simp add: analyse_rse_def kinds_analyse_upload Nfiles_of_def fill_rucio_info_def)

theorem missing_file_count_patterns_witness:
  "map kind (analyse_rse ''LNGS_USERDISK'' ''xnt_007330:raw_records-rfzvpzj4mf''
      \<lparr>file_count = None, status = Some ''transferring''\<rparr> [''LNGS_USERDISK'']
      (fill_rucio_info \<lparr>name = ''LNGS_USERDISK'', DBentries = 0, DBStatus = [],
        RucioExists = False, RucioNFiles = 0\<rparr> True [''f1'', ''f2''])) = [UploadInterrupted]"
  using missing_file_count_patterns [of "\<lparr>name = ''LNGS_USERDISK'', DBentries = 0, DBStatus = [],
        RucioExists = False, RucioNFiles = 0\<rparr>" "''LNGS_USERDISK''"
        "\<lparr>file_count = None, status = Some ''transferring''\<rparr>"
        "''xnt_007330:raw_records-rfzvpzj4mf''" "[''LNGS_USERDISK'']" True "[''f1'', ''f2'']"]
  by (simp add: analyse_defs fill_rucio_info_def)

section \<open>Properties of the deletion daemon\<close>

subsection \<open>The storage dictionary, the mask and the ranking\<close>

lemma fold_upd_lookup:
  "fold (\<lambda>n dict. dict(n \<mapsto> f n)) xs m r = (if r \<in> set xs then Some (f r) else m r)"
  by (induction xs arbitrary: m) auto

lemma rse_dict_build:
  "rse_dict (fst (build_rse_storage_dict rc self)) r =
     (if r \<in> set (list_rses rc) then Some (bytes_remaining rc r) else None)"
  by (simp add: build_rse_storage_dict_def fold_upd_lookup)

lemma build_keeps_arrays:
  "tagged_dids (fst (build_rse_storage_dict rc self)) = tagged_dids self"
  "tagged_on_rse (fst (build_rse_storage_dict rc self)) = tagged_on_rse self"
  "to_delete_dids (fst (build_rse_storage_dict rc self)) = to_delete_dids self"
  "to_delete_on_rse (fst (build_rse_storage_dict rc self)) = to_delete_on_rse self"
  by (simp_all add: build_rse_storage_dict_def)

lemma mask_select_mismatch:
  "length ds \<noteq> length rs \<Longrightarrow> mask_select rs (map P ds) = Inl IndexError"
  by (simp add: mask_select_def)

lemma mask_select_set:
  assumes "length ds = length rs"
  shows "\<exists>rses. mask_select rs (map P ds) = Inr rses
           \<and> set rses = {rs ! i | i. i < length rs \<and> P (ds ! i)}"
proof -
  have "set (map fst (filter snd (zip rs (map P ds)))) = {rs ! i | i. i < length rs \<and> P (ds ! i)}"
    using assms by (auto simp add: set_zip image_iff) force
  then show ?thesis
    using assms by (simp add: mask_select_def)
qed

lemma float64_error: "float64_of_int c = Inl e \<Longrightarrow> e = OverflowError"
  by (auto simp add: float64_of_int_def Let_def split: if_splits)

lemma float64_exact: "\<bar>c\<bar> < 2 ^ 53 \<Longrightarrow> float64_of_int c = Inr c"
proof -
  assume "\<bar>c\<bar> < 2 ^ 53"
  then have "nat \<bar>c\<bar> < 2 ^ 53" by simp
  then show ?thesis by (simp add: float64_of_int_def Let_def)
qed

lemma remaining_storage_error:
  "remaining_storage_of dict rses = Inl e \<Longrightarrow>
     e = OverflowError \<or> (\<exists>r \<in> set rses. dict r = None \<and> e = KeyError r)"
  by (induction rses arbitrary: e)
     (auto split: option.splits sum.splits dest: float64_error)

lemma remaining_storage_missing:
  "r \<in> set rses \<Longrightarrow> dict r = None \<Longrightarrow> \<exists>e. remaining_storage_of dict rses = Inl e"
  by (induction rses) (auto split: option.splits sum.splits)

lemma remaining_storage_length:
  "remaining_storage_of dict rses = Inr st \<Longrightarrow> length st = length rses"
  by (induction rses arbitrary: st) (auto split: option.splits sum.splits)

lemma np_argmax_first:
  assumes "k < length st" and "\<forall>j < length st. st ! j \<le> st ! k" and "\<forall>j < k. st ! j < st ! k"
  shows "np_argmax st = Inr k"
proof -
  have ne: "st \<noteq> []" using assms(1) by auto
  have "Max (set st) = st ! k"
  proof (rule Max_eqI)
    show "finite (set st)" by simp
    show "\<And>y. y \<in> set st \<Longrightarrow> y \<le> st ! k"
      using assms(2) by (auto simp add: in_set_conv_nth)
    show "st ! k \<in> set st" using assms(1) by simp
  qed
  moreover have "takeWhile (\<lambda>x. x \<noteq> st ! k) st = take k st"
    by (rule takeWhile_eq_take_P_nth) (use assms in auto)
  ultimately show ?thesis
    using ne assms(1) by (simp add: np_argmax_def)
qed

lemma np_argmax_nonempty:
  "st \<noteq> [] \<Longrightarrow> \<exists>k. np_argmax st = Inr k \<and> k < length st"
proof -
  assume ne: "st \<noteq> []"
  then have "Max (set st) \<in> set st" by (intro Max_in) auto
  then have neq: "takeWhile (\<lambda>x. x \<noteq> Max (set st)) st \<noteq> st"
    by (auto simp add: takeWhile_eq_all_conv)
  have "length (takeWhile (\<lambda>x. x \<noteq> Max (set st)) st) \<noteq> length st"
  proof
    assume "length (takeWhile (\<lambda>x. x \<noteq> Max (set st)) st) = length st"
    then have "takeWhile (\<lambda>x. x \<noteq> Max (set st)) st = take (length st) st"
      using takeWhile_eq_take [of "\<lambda>x. x \<noteq> Max (set st)" st] by simp
    then show False using neq by simp
  qed
  then have "length (takeWhile (\<lambda>x. x \<noteq> Max (set st)) st) < length st"
    using length_takeWhile_le [of "\<lambda>x. x \<noteq> Max (set st)" st] by simp
  then show ?thesis using ne by (simp add: np_argmax_def)
qed

lemma priority_loop_error:
  "priority_loop self ds acc = Inl e \<Longrightarrow> \<exists>d \<in> set ds. priority_step self d = Inl e"
  by (induction ds arbitrary: acc) (auto split: sum.splits prod.splits)

lemma priority_loop_fails:
  "d \<in> set ds \<Longrightarrow> priority_step self d = Inl e \<Longrightarrow> \<exists>e'. priority_loop self ds acc = Inl e'"
proof (induction ds arbitrary: acc)
  case Nil
  then show ?case by simp
next
  case (Cons x xs)
  obtain a b where acc: "acc = (a, b)" by (cases acc)
  show ?case
  proof (cases "priority_step self x")
    case (Inl e0)
    then show ?thesis by (simp add: acc)
  next
    case (Inr p)
    then have "x \<noteq> d" using Cons.prems by auto
    then have "d \<in> set xs" using Cons.prems by simp
    then show ?thesis
      using Cons.IH [OF _ Cons.prems(2)] Inr by (auto simp add: acc split: prod.splits)
  qed
qed

lemma priority_step_error:
  assumes "length (tagged_dids self) = length (tagged_on_rse self)"
    and "d \<in> set (tagged_dids self)"
    and "priority_step self d = Inl e"
  shows "e = OverflowError
       \<or> (\<exists>r \<in> set (tagged_on_rse self). rse_dict self r = None \<and> e = KeyError r)"
proof -
  obtain rses where sel: "mask_select (tagged_on_rse self) (map (\<lambda>x. x = d) (tagged_dids self)) = Inr rses"
    and rses: "set rses = {tagged_on_rse self ! i | i. i < length (tagged_on_rse self) \<and> tagged_dids self ! i = d}"
    using mask_select_set [OF assms(1), of "\<lambda>x. x = d"] by auto
  from assms(2) obtain i where "i < length (tagged_dids self)" "tagged_dids self ! i = d"
    by (auto simp add: in_set_conv_nth)
  then have ne: "rses \<noteq> []"
    using rses assms(1) by auto
  have sub: "set rses \<subseteq> set (tagged_on_rse self)"
    using rses by auto
  show ?thesis
  proof (cases "remaining_storage_of (rse_dict self) rses")
    case (Inl e0)
    then have "e = e0" using assms(3) sel by (simp add: priority_step_def)
    then show ?thesis
      using remaining_storage_error [OF Inl] sub by auto
  next
    case (Inr st)
    then have "st \<noteq> []"
      using remaining_storage_length [OF Inr] ne by auto
    then obtain k where "np_argmax st = Inr k"
      using np_argmax_nonempty by blast
    then show ?thesis
      using assms(3) sel Inr by (simp add: priority_step_def Let_def)
  qed
qed

lemma set_np_unique: "set (np_unique arr) = set arr"
  by (simp add: np_unique_def)

lemmas priority_eval =
  find_priority_def build_rse_storage_dict_def np_unique_def priority_step_def
  mask_select_def np_argmax_def float64_of_int_def Let_def

lemma remaining_storage_exact:
  "length caps = length rses \<Longrightarrow>
   \<forall>j < length rses. dict (rses ! j) = Some (caps ! j) \<and> \<bar>caps ! j\<bar> < 2 ^ 53 \<Longrightarrow>
   remaining_storage_of dict rses = Inr caps"
proof (induction rses arbitrary: caps)
  case Nil
  then show ?case by simp
next
  case (Cons r rs)
  then obtain c cs where caps: "caps = c # cs" by (cases caps) auto
  have hd: "dict r = Some c" "\<bar>c\<bar> < 2 ^ 53"
    using Cons.prems(2) caps by force+
  have tl: "\<forall>j < length rs. dict (rs ! j) = Some (cs ! j) \<and> \<bar>cs ! j\<bar> < 2 ^ 53"
    using Cons.prems(2) caps by force
  have "remaining_storage_of dict rs = Inr cs"
    using Cons.IH [OF _ tl] Cons.prems(1) caps by simp
  then show ?case
    using hd caps by (simp add: float64_exact)
qed

lemma np_argmax_is_max:
  assumes "np_argmax st = Inr k"
  shows "k < length st \<and> st ! k = Max (set st)"
proof -
  have ne: "st \<noteq> []" using assms by (auto simp add: np_argmax_def split: if_splits)
  obtain k' where k': "np_argmax st = Inr k'" "k' < length st"
    using np_argmax_nonempty [OF ne] by blast
  then have kk: "k' = k" using assms by simp
  have "k = length (takeWhile (\<lambda>x. x \<noteq> Max (set st)) st)"
    using assms ne by (simp add: np_argmax_def)
  then have "\<not> (st ! k \<noteq> Max (set st))"
    using nth_length_takeWhile [of "\<lambda>x. x \<noteq> Max (set st)" st] k'(2) kk by simp
  then show ?thesis using k'(2) kk by simp
qed

lemma filter_neq_absent: "x \<notin> set xs \<Longrightarrow> filter (\<lambda>y. y \<noteq> x) xs = xs"
  by (induction xs) auto

lemma length_filter_neq_distinct:
  "distinct xs \<Longrightarrow> x \<in> set xs \<Longrightarrow> length (filter (\<lambda>y. y \<noteq> x) xs) = length xs - 1"
proof (induction xs)
  case Nil
  then show ?case by simp
next
  case (Cons a xs)
  show ?case
  proof (cases "a = x")
    case True
    then show ?thesis using Cons.prems by (simp add: filter_neq_absent)
  next
    case False
    then have "x \<in> set xs" using Cons.prems by simp
    then have "length xs \<noteq> 0" by auto
    then show ?thesis using False Cons by simp
  qed
qed

subsection \<open>C2: the RSE with the most remaining storage\<close>

text \<open>
  C2 says that with pairwise distinct remaining capacities the RSE of maximum capacity is
  the one kept. The code ranks the capacities after storing them in an array of doubles.
  With \<open>2 ^ 53\<close> bytes left on A and \<open>2 ^ 53 + 1\<close> bytes left on B, both are stored as
  \<open>2 ^ 53\<close>, \<open>np.argmax\<close> returns the first index, A is kept and B, which has more
  storage left, is marked for deletion.
\<close>

theorem rounded_capacities_tie:
  "priority_step
     (fst (build_rse_storage_dict
        \<lparr>list_rses = [''A'', ''B''],
         bytes_remaining = (\<lambda>rse. if rse = ''A'' then 9007199254740992 else 9007199254740993),
         get_size_mb = (\<lambda>d. 2048)\<rparr>
        \<lparr>tagged_on_rse = [''A'', ''B''],
         tagged_dids = [''xnt_007330:raw_records-rfzvpzj4mf'', ''xnt_007330:raw_records-rfzvpzj4mf''],
         to_delete_on_rse = [], to_delete_dids = [], rse_dict = Map.empty\<rparr>))
     ''xnt_007330:raw_records-rfzvpzj4mf'' = Inr (''A'', [''B''])
   \<and> to_delete_on_rse (fst (find_priority
        \<lparr>list_rses = [''A'', ''B''],
         bytes_remaining = (\<lambda>rse. if rse = ''A'' then 9007199254740992 else 9007199254740993),
         get_size_mb = (\<lambda>d. 2048)\<rparr>
        \<lparr>tagged_on_rse = [''A'', ''B''],
         tagged_dids = [''xnt_007330:raw_records-rfzvpzj4mf'', ''xnt_007330:raw_records-rfzvpzj4mf''],
         to_delete_on_rse = [], to_delete_dids = [], rse_dict = Map.empty\<rparr>)) = [''B'']"
proof -
  have b: "bit_length 9007199254740992 = 54" "bit_length 9007199254740993 = 54"
    by (simp_all add: bit_length.simps)
  show ?thesis
    by (simp add: priority_eval b)
qed

text \<open>
  Where every capacity of the DID's RSEs is below \<open>2 ^ 53\<close> in absolute value, the
  stored values are the capacities themselves: with at least two RSEs of pairwise
  distinct capacities, the RSE kept is the one whose capacity is strictly above all
  others, and all the other RSEs, one fewer than there are, are marked for deletion.
\<close>

theorem exact_maximum_kept:
  assumes "mask_select (tagged_on_rse self) (map (\<lambda>x. x = d) (tagged_dids self)) = Inr rses"
    and "length caps = length rses" and "2 \<le> length rses"
    and "\<forall>j < length rses. rse_dict self (rses ! j) = Some (caps ! j) \<and> \<bar>caps ! j\<bar> < 2 ^ 53"
    and "distinct caps"
  shows "\<exists>k < length rses. (\<forall>j < length rses. j \<noteq> k \<longrightarrow> caps ! j < caps ! k)
           \<and> priority_step self d = Inr (rses ! k, filter (\<lambda>rse. rse \<noteq> rses ! k) rses)
           \<and> length (filter (\<lambda>rse. rse \<noteq> rses ! k) rses) = length rses - 1"
proof -
  have st: "remaining_storage_of (rse_dict self) rses = Inr caps"
    using remaining_storage_exact [OF assms(2,4)] .
  have ne: "caps \<noteq> []" using assms(2,3) by auto
  obtain k where k: "np_argmax caps = Inr k" "k < length caps"
    using np_argmax_nonempty [OF ne] by blast
  have mx: "caps ! k = Max (set caps)"
    using np_argmax_is_max [OF k(1)] by simp
  have less: "\<forall>j < length rses. j \<noteq> k \<longrightarrow> caps ! j < caps ! k"
  proof (intro allI impI)
    fix j assume j: "j < length rses" "j \<noteq> k"
    then have "caps ! j \<le> caps ! k"
      using mx assms(2) by simp
    moreover have "caps ! j \<noteq> caps ! k"
      using j k(2) assms(2,5) by (simp add: nth_eq_iff_index_eq)
    ultimately show "caps ! j < caps ! k" by simp
  qed
  have "distinct rses"
  proof (rule ccontr)
    assume "\<not> distinct rses"
    then obtain i j where ij: "i < length rses" "j < length rses" "i \<noteq> j" "rses ! i = rses ! j"
      by (auto simp add: distinct_conv_nth)
    then have "caps ! i = caps ! j"
      using assms(4) by (metis option.inject)
    then show False
      using ij assms(2,5) by (simp add: nth_eq_iff_index_eq)
  qed
  then have len: "length (filter (\<lambda>rse. rse \<noteq> rses ! k) rses) = length rses - 1"
    using k(2) assms(2) by (intro length_filter_neq_distinct) auto
  have "priority_step self d = Inr (rses ! k, filter (\<lambda>rse. rse \<noteq> rses ! k) rses)"
    using assms(1) st k(1) by (simp add: priority_step_def Let_def)
  then show ?thesis
    using less len k(2) assms(2) by auto
qed

theorem exact_maximum_kept_witness:
  "priority_step
     \<lparr>tagged_on_rse = [''A'', ''B'', ''C''],
      tagged_dids = [''d1'', ''d1'', ''d1''],
      to_delete_on_rse = [], to_delete_dids = [],
      rse_dict = [''A'' \<mapsto> 500, ''B'' \<mapsto> 2000, ''C'' \<mapsto> 1000]\<rparr>
     ''d1'' = Inr (''B'', [''A'', ''C''])"
proof -
  let ?self = "\<lparr>tagged_on_rse = [''A'', ''B'', ''C''],
      tagged_dids = [''d1'', ''d1'', ''d1''],
      to_delete_on_rse = [], to_delete_dids = [],
      rse_dict = [''A'' \<mapsto> 500, ''B'' \<mapsto> 2000, ''C'' \<mapsto> (1000::int)]\<rparr>"
  have h1: "mask_select (tagged_on_rse ?self) (map (\<lambda>x. x = ''d1'') (tagged_dids ?self))
      = Inr [''A'', ''B'', ''C'']"
    by (simp add: mask_select_def)
  have h2: "length [500, 2000, 1000 :: int] = length [''A'', ''B'', ''C'']" by simp
  have h3: "2 \<le> length [''A'', ''B'', ''C'']" by simp
  have h4: "\<forall>j < length [''A'', ''B'', ''C''].
      rse_dict ?self ([''A'', ''B'', ''C''] ! j) = Some ([500, 2000, 1000] ! j)
      \<and> \<bar>[500, 2000, 1000 :: int] ! j\<bar> < 2 ^ 53"
    by (simp add: nth_Cons' less_Suc_eq numeral_3_eq_3)
  have h5: "distinct [500, 2000, 1000 :: int]" by simp
  show ?thesis
    using exact_maximum_kept [OF h1 h2 h3 h4 h5]
    by (simp add: priority_step_def mask_select_def np_argmax_def float64_of_int_def Let_def)
qed

subsection \<open>C7: ties at the maximum\<close>

text \<open>
  C7 says that among the RSEs of a DID tied at the maximum remaining capacity the first in
  the order of the tagged array is kept and all others are marked for deletion. The code
  ranks the capacities as stored in the array of doubles. With \<open>2 ^ 53\<close> bytes left on
  A and \<open>2 ^ 53 + 1\<close> bytes left on B and on C, the maximum capacity is tied between B
  and C, so B is the first RSE of maximum capacity; all three are stored as \<open>2 ^ 53\<close>,
  \<open>np.argmax\<close> returns index 0, A is kept, and B and C are marked for deletion.
\<close>

theorem rounded_tie_keeps_smaller:
  "priority_step
     (fst (build_rse_storage_dict
        \<lparr>list_rses = [''A'', ''B'', ''C''],
         bytes_remaining = (\<lambda>rse. if rse = ''A'' then 9007199254740992 else 9007199254740993),
         get_size_mb = (\<lambda>d. 2048)\<rparr>
        \<lparr>tagged_on_rse = [''A'', ''B'', ''C''],
         tagged_dids = [''xnt_007330:raw_records-rfzvpzj4mf'',
           ''xnt_007330:raw_records-rfzvpzj4mf'', ''xnt_007330:raw_records-rfzvpzj4mf''],
         to_delete_on_rse = [], to_delete_dids = [], rse_dict = Map.empty\<rparr>))
     ''xnt_007330:raw_records-rfzvpzj4mf'' = Inr (''A'', [''B'', ''C''])
   \<and> to_delete_on_rse (fst (find_priority
        \<lparr>list_rses = [''A'', ''B'', ''C''],
         bytes_remaining = (\<lambda>rse. if rse = ''A'' then 9007199254740992 else 9007199254740993),
         get_size_mb = (\<lambda>d. 2048)\<rparr>
        \<lparr>tagged_on_rse = [''A'', ''B'', ''C''],
         tagged_dids = [''xnt_007330:raw_records-rfzvpzj4mf'',
           ''xnt_007330:raw_records-rfzvpzj4mf'', ''xnt_007330:raw_records-rfzvpzj4mf''],
         to_delete_on_rse = [], to_delete_dids = [], rse_dict = Map.empty\<rparr>)) = [''B'', ''C'']"
proof -
  have b: "bit_length 9007199254740992 = 54" "bit_length 9007199254740993 = 54"
    by (simp_all add: bit_length.simps)
  show ?thesis
    by (simp add: priority_eval b)
qed

text \<open>
  On the stored values the rule is the one of \<open>np.argmax\<close>: the RSE kept is the first,
  in the order of the tagged array, whose entry of \<open>remaining_storage\<close> is the maximum,
  and every other RSE is marked for deletion. Below \<open>2 ^ 53\<close> the stored values are the
  capacities: with A: 500, B: 1000, C: 1000 and the DID at A, B, C in that order, B is
  kept and A and C are marked for deletion.
\<close>

theorem first_maximum_kept:
  assumes "mask_select (tagged_on_rse self) (map (\<lambda>x. x = d) (tagged_dids self)) = Inr rses"
    and "remaining_storage_of (rse_dict self) rses = Inr remaining_storage"
    and "k < length remaining_storage"
    and "\<forall>j < length remaining_storage. remaining_storage ! j \<le> remaining_storage ! k"
    and "\<forall>j < k. remaining_storage ! j < remaining_storage ! k"
  shows "priority_step self d = Inr (rses ! k, filter (\<lambda>rse. rse \<noteq> rses ! k) rses)"
  using assms(1,2) np_argmax_first [OF assms(3,4,5)]
  by (simp add: priority_step_def Let_def)

theorem first_maximum_kept_witness:
  "priority_step
     \<lparr>tagged_on_rse = [''A'', ''B'', ''C''],
      tagged_dids = [''xnt_007330:raw_records-rfzvpzj4mf'', ''xnt_007330:raw_records-rfzvpzj4mf'',
        ''xnt_007330:raw_records-rfzvpzj4mf''],
      to_delete_on_rse = [], to_delete_dids = [],
      rse_dict = [''A'' \<mapsto> 500, ''B'' \<mapsto> 1000, ''C'' \<mapsto> 1000]\<rparr>
     ''xnt_007330:raw_records-rfzvpzj4mf'' = Inr (''B'', [''A'', ''C''])
   \<and> to_delete_on_rse (fst (find_priority
        \<lparr>list_rses = [''A'', ''B'', ''C''],
         bytes_remaining = (\<lambda>rse. if rse = ''A'' then 500 else 1000),
         get_size_mb = (\<lambda>d. 2048)\<rparr>
        \<lparr>tagged_on_rse = [''A'', ''B'', ''C''],
         tagged_dids = [''xnt_007330:raw_records-rfzvpzj4mf'',
           ''xnt_007330:raw_records-rfzvpzj4mf'', ''xnt_007330:raw_records-rfzvpzj4mf''],
         to_delete_on_rse = [], to_delete_dids = [], rse_dict = Map.empty\<rparr>)) = [''A'', ''C'']"
proof -
  let ?self = "\<lparr>tagged_on_rse = [''A'', ''B'', ''C''],
      tagged_dids = [''xnt_007330:raw_records-rfzvpzj4mf'', ''xnt_007330:raw_records-rfzvpzj4mf'',
        ''xnt_007330:raw_records-rfzvpzj4mf''],
      to_delete_on_rse = [], to_delete_dids = [],
      rse_dict = [''A'' \<mapsto> 500, ''B'' \<mapsto> 1000, ''C'' \<mapsto> (1000::int)]\<rparr>"
  let ?d = "''xnt_007330:raw_records-rfzvpzj4mf''"
  have h1: "mask_select (tagged_on_rse ?self) (map (\<lambda>x. x = ?d) (tagged_dids ?self))
      = Inr [''A'', ''B'', ''C'']"
    by (simp add: mask_select_def)
  have h2: "remaining_storage_of (rse_dict ?self) [''A'', ''B'', ''C''] = Inr [500, 1000, 1000]"
    by (simp add: float64_of_int_def)
  have h3: "(1::nat) < length [500, 1000, 1000 :: int]" by simp
  have h4: "\<forall>j < length [500, 1000, 1000 :: int]. [500, 1000, 1000] ! j \<le> [500, 1000, 1000 :: int] ! 1"
    by (simp add: nth_Cons' less_Suc_eq numeral_3_eq_3)
  have h5: "\<forall>j < (1::nat). [500, 1000, 1000 :: int] ! j < [500, 1000, 1000] ! 1"
    by simp
  have step: "priority_step ?self ?d = Inr (''B'', [''A'', ''C''])"
    using first_maximum_kept [OF h1 h2 h3 h4 h5] by simp
  have pass: "to_delete_on_rse (fst (find_priority
        \<lparr>list_rses = [''A'', ''B'', ''C''],
         bytes_remaining = (\<lambda>rse. if rse = ''A'' then 500 else 1000),
         get_size_mb = (\<lambda>d. 2048)\<rparr>
        \<lparr>tagged_on_rse = [''A'', ''B'', ''C''],
         tagged_dids = [''xnt_007330:raw_records-rfzvpzj4mf'',
           ''xnt_007330:raw_records-rfzvpzj4mf'', ''xnt_007330:raw_records-rfzvpzj4mf''],
         to_delete_on_rse = [], to_delete_dids = [], rse_dict = Map.empty\<rparr>)) = [''A'', ''C'']"
    by (simp add: priority_eval)
  show ?thesis
    using step pass by simp
qed

subsection \<open>C5: an RSE that is not in the storage dictionary\<close>

text \<open>
  C5 as stated fails. \<open>self.rse_dict[rse]\<close> has no default and no handler: with the
  second DID on an RSE C that \<open>list_rses()\<close> did not return, \<open>find_priority\<close> raises
  \<open>KeyError\<close> for C, and lines 63-64 are not reached, so the first DID, whose RSEs are
  all known, gets no decision either.
\<close>

theorem missing_capacity_raises:
  "snd (snd (find_priority
        \<lparr>list_rses = [''A'', ''B''],
         bytes_remaining = (\<lambda>rse. if rse = ''A'' then 500 else 1000),
         get_size_mb = (\<lambda>d. 2048)\<rparr>
        \<lparr>tagged_on_rse = [''A'', ''B'', ''A'', ''C''],
         tagged_dids = [''d1'', ''d1'', ''d2'', ''d2''],
         to_delete_on_rse = [], to_delete_dids = [], rse_dict = Map.empty\<rparr>)) = Some (KeyError ''C'')
   \<and> to_delete_dids (fst (find_priority
        \<lparr>list_rses = [''A'', ''B''],
         bytes_remaining = (\<lambda>rse. if rse = ''A'' then 500 else 1000),
         get_size_mb = (\<lambda>d. 2048)\<rparr>
        \<lparr>tagged_on_rse = [''A'', ''B'', ''A'', ''C''],
         tagged_dids = [''d1'', ''d1'', ''d2'', ''d2''],
         to_delete_on_rse = [], to_delete_dids = [], rse_dict = Map.empty\<rparr>)) = []"
  by (simp add: priority_eval)

text \<open>
  C5, amended: when an RSE of some tagged DID is absent from the storage dictionary,
  \<open>find_priority\<close> raises (a \<open>KeyError\<close> for an absent RSE, or the
  \<open>OverflowError\<close> of an earlier capacity too large for a double); the exception ends
  the whole call, and \<open>to_delete_dids\<close> and \<open>to_delete_on_rse\<close> keep the values they
  had before it.
\<close>

theorem missing_capacity_aborts:
  assumes "length (tagged_dids self) = length (tagged_on_rse self)"
    and "r0 \<in> set (tagged_on_rse self)" and "r0 \<notin> set (list_rses rc)"
  shows "\<exists>e. find_priority rc self = (fst (build_rse_storage_dict rc self),
                 snd (build_rse_storage_dict rc self), Some e)
           \<and> (e = OverflowError
              \<or> (\<exists>r \<in> set (tagged_on_rse self). r \<notin> set (list_rses rc) \<and> e = KeyError r))
           \<and> to_delete_dids (fst (find_priority rc self)) = to_delete_dids self
           \<and> to_delete_on_rse (fst (find_priority rc self)) = to_delete_on_rse self"
proof -
  let ?self = "fst (build_rse_storage_dict rc self)"
  have len: "length (tagged_dids ?self) = length (tagged_on_rse ?self)"
    using assms(1) by (simp add: build_keeps_arrays)
  from assms(2) obtain i where i: "i < length (tagged_on_rse self)" "tagged_on_rse self ! i = r0"
    by (auto simp add: in_set_conv_nth)
  let ?d = "tagged_dids self ! i"
  have d_in: "?d \<in> set (tagged_dids self)"
    using i(1) assms(1) by simp
  obtain rses where sel: "mask_select (tagged_on_rse ?self) (map (\<lambda>x. x = ?d) (tagged_dids ?self)) = Inr rses"
    and rses: "set rses = {tagged_on_rse ?self ! j | j. j < length (tagged_on_rse ?self) \<and> tagged_dids ?self ! j = ?d}"
    using mask_select_set [OF len, of "\<lambda>x. x = ?d"] by auto
  have "r0 \<in> set rses"
    using rses i by (auto simp add: build_keeps_arrays)
  moreover have "rse_dict ?self r0 = None"
    using assms(3) by (simp add: rse_dict_build)
  ultimately obtain e0 where "remaining_storage_of (rse_dict ?self) rses = Inl e0"
    using remaining_storage_missing by blast
  then have "priority_step ?self ?d = Inl e0"
    using sel by (simp add: priority_step_def)
  then obtain e where loop: "priority_loop ?self (np_unique (tagged_dids self)) ([], []) = Inl e"
    using priority_loop_fails [of ?d "np_unique (tagged_dids self)" ?self e0] d_in
    by (auto simp add: set_np_unique)
  then obtain d' where d': "d' \<in> set (tagged_dids self)" "priority_step ?self d' = Inl e"
    using priority_loop_error [OF loop] by (auto simp add: set_np_unique)
  have err: "e = OverflowError
       \<or> (\<exists>r \<in> set (tagged_on_rse self). r \<notin> set (list_rses rc) \<and> e = KeyError r)"
    using priority_step_error [OF len _ d'(2)] d'(1)
    by (auto simp add: build_keeps_arrays rse_dict_build split: if_splits)
  have fp: "find_priority rc self = (?self, snd (build_rse_storage_dict rc self), Some e)"
    using loop by (simp add: find_priority_def Let_def split_beta)
  show ?thesis
    using fp err by (auto simp add: build_keeps_arrays)
qed

theorem missing_capacity_aborts_witness:
  "\<exists>e. snd (snd (find_priority
        \<lparr>list_rses = [''A'', ''B''],
         bytes_remaining = (\<lambda>rse. if rse = ''A'' then 500 else 1000),
         get_size_mb = (\<lambda>d. 2048)\<rparr>
        \<lparr>tagged_on_rse = [''A'', ''C''],
         tagged_dids = [''d1'', ''d1''],
         to_delete_on_rse = [], to_delete_dids = [], rse_dict = Map.empty\<rparr>)) = Some e"
  using missing_capacity_aborts [of
        "\<lparr>tagged_on_rse = [''A'', ''C''],
         tagged_dids = [''d1'', ''d1''],
         to_delete_on_rse = [], to_delete_dids = [], rse_dict = Map.empty\<rparr>" "''C''"
        "\<lparr>list_rses = [''A'', ''B''],
         bytes_remaining = (\<lambda>rse. if rse = ''A'' then 500 else 1000),
         get_size_mb = (\<lambda>d. 2048)\<rparr>"]
  by auto

subsection \<open>C6: a DID without a location\<close>

text \<open>
  C6 as stated fails. A tagged DID has no location only when the array of DIDs is longer
  than the array of RSEs; then the mask does not fit the array, the first DID of the loop
  raises \<open>IndexError\<close>, and no DID gets a decision: nothing is skipped and nothing
  continues.
\<close>

theorem did_without_location_raises:
  "snd (snd (find_priority
        \<lparr>list_rses = [''A'', ''B''],
         bytes_remaining = (\<lambda>rse. if rse = ''A'' then 500 else 1000),
         get_size_mb = (\<lambda>d. 2048)\<rparr>
        \<lparr>tagged_on_rse = [''A'', ''B''],
         tagged_dids = [''d1'', ''d1'', ''d2''],
         to_delete_on_rse = [], to_delete_dids = [], rse_dict = Map.empty\<rparr>)) = Some IndexError
   \<and> to_delete_dids (fst (find_priority
        \<lparr>list_rses = [''A'', ''B''],
         bytes_remaining = (\<lambda>rse. if rse = ''A'' then 500 else 1000),
         get_size_mb = (\<lambda>d. 2048)\<rparr>
        \<lparr>tagged_on_rse = [''A'', ''B''],
         tagged_dids = [''d1'', ''d1'', ''d2''],
         to_delete_on_rse = [], to_delete_dids = [], rse_dict = Map.empty\<rparr>)) = []"
  by (simp add: priority_eval)

text \<open>
  C6, amended: \<open>find_priority\<close> ranks the distinct values of \<open>tagged_dids\<close>. When
  that array is as long as \<open>tagged_on_rse\<close>, every DID it ranks selects at least one
  RSE, so no DID without a location reaches the ranking. When the two arrays differ in
  length and a DID is tagged, the call raises \<open>IndexError\<close> and leaves
  \<open>to_delete_dids\<close> and \<open>to_delete_on_rse\<close> as they were.
\<close>

theorem no_did_without_location:
  "(length (tagged_dids self) \<noteq> length (tagged_on_rse self) \<and> tagged_dids self \<noteq> []
      \<longrightarrow> snd (snd (find_priority rc self)) = Some IndexError
          \<and> to_delete_dids (fst (find_priority rc self)) = to_delete_dids self
          \<and> to_delete_on_rse (fst (find_priority rc self)) = to_delete_on_rse self)
   \<and> (length (tagged_dids self) = length (tagged_on_rse self)
        \<and> d \<in> set (np_unique (tagged_dids self))
      \<longrightarrow> (\<exists>rses. mask_select (tagged_on_rse self) (map (\<lambda>x. x = d) (tagged_dids self)) = Inr rses
             \<and> rses \<noteq> []))"
proof (intro conjI impI)
  assume a: "length (tagged_dids self) = length (tagged_on_rse self)
        \<and> d \<in> set (np_unique (tagged_dids self))"
  then obtain rses where sel: "mask_select (tagged_on_rse self) (map (\<lambda>x. x = d) (tagged_dids self)) = Inr rses"
    and rses: "set rses = {tagged_on_rse self ! i | i. i < length (tagged_on_rse self) \<and> tagged_dids self ! i = d}"
    using mask_select_set [of "tagged_dids self" "tagged_on_rse self" "\<lambda>x. x = d"] by auto
  from a obtain i where "i < length (tagged_dids self)" "tagged_dids self ! i = d"
    by (auto simp add: in_set_conv_nth set_np_unique)
  then have "rses \<noteq> []" using rses a by auto
  then show "\<exists>rses. mask_select (tagged_on_rse self) (map (\<lambda>x. x = d) (tagged_dids self)) = Inr rses
             \<and> rses \<noteq> []"
    using sel by simp
next
  assume a: "length (tagged_dids self) \<noteq> length (tagged_on_rse self) \<and> tagged_dids self \<noteq> []"
  let ?self = "fst (build_rse_storage_dict rc self)"
  from a have "np_unique (tagged_dids self) \<noteq> []"
    using set_np_unique [of "tagged_dids self"] by (metis set_empty)
  then obtain x xs where u: "np_unique (tagged_dids self) = x # xs"
    by (cases "np_unique (tagged_dids self)") auto
  have "priority_step ?self x = Inl IndexError"
    using a by (simp add: priority_step_def mask_select_mismatch build_keeps_arrays)
  then have fp: "find_priority rc self = (?self, snd (build_rse_storage_dict rc self), Some IndexError)"
    by (simp add: find_priority_def Let_def split_beta u)
  show "snd (snd (find_priority rc self)) = Some IndexError"
    using fp by simp
  show "to_delete_dids (fst (find_priority rc self)) = to_delete_dids self"
    using fp by (simp add: build_keeps_arrays)
  show "to_delete_on_rse (fst (find_priority rc self)) = to_delete_on_rse self"
    using fp by (simp add: build_keeps_arrays)
qed

theorem no_did_without_location_witness:
  "mask_select [''A'', ''B'', ''A''] (map (\<lambda>x. x = ''d2'') [''d1'', ''d1'', ''d2'']) = Inr [''A'']
   \<and> snd (snd (find_priority
        \<lparr>list_rses = [''A'', ''B''],
         bytes_remaining = (\<lambda>rse. if rse = ''A'' then 500 else 1000),
         get_size_mb = (\<lambda>d. 2048)\<rparr>
        \<lparr>tagged_on_rse = [],
         tagged_dids = [''d1''],
         to_delete_on_rse = [], to_delete_dids = [], rse_dict = Map.empty\<rparr>)) = Some IndexError"
  using no_did_without_location [of
        "\<lparr>tagged_on_rse = [''A'', ''B'', ''A''],
         tagged_dids = [''d1'', ''d1'', ''d2''],
         to_delete_on_rse = [], to_delete_dids = [], rse_dict = Map.empty\<rparr>"
        "\<lparr>list_rses = [''A'', ''B''],
         bytes_remaining = (\<lambda>rse. if rse = ''A'' then 500 else 1000),
         get_size_mb = (\<lambda>d. 2048)\<rparr>" "''d2''"]
    no_did_without_location [of
        "\<lparr>tagged_on_rse = [],
         tagged_dids = [''d1''],
         to_delete_on_rse = [], to_delete_dids = [], rse_dict = Map.empty\<rparr>"
        "\<lparr>list_rses = [''A'', ''B''],
         bytes_remaining = (\<lambda>rse. if rse = ''A'' then 500 else 1000),
         get_size_mb = (\<lambda>d. 2048)\<rparr>" "''d1''"]
  by (simp add: mask_select_def)

subsection \<open>C3: \<open>np.append\<close> without assignment\<close>

lemma tag_pair_same: "tag_pair self a b = self"
  by (simp add: tag_pair_def Let_def)

lemma try_tag_same:
  "try_tag RAW_DTYPES raw_type_only exclude_rses self d x = Inr self' \<Longrightarrow> self' = self"
  by (auto simp add: try_tag_def tag_pair_same split: list.splits option.splits if_splits)

lemma tag_datum_same: "tag_datum RAW_DTYPES raw_type_only exclude_rses self d = self"
  by (auto simp add: tag_datum_def split: option.splits sum.splits dest: try_tag_same)

lemma fold_tag_datum_same:
  "fold (\<lambda>d s. tag_datum RAW_DTYPES raw_type_only exclude_rses s d) ds self = self"
  by (induction ds) (simp_all add: tag_datum_same)

lemma tag_runs_same:
  "fst (tag_runs RAW_DTYPES raw_type_only exclude_rses found self idxs) = self"
  by (induction idxs) (simp_all add: fold_tag_datum_same split: option.splits)

lemma tag_scan_same:
  "fst (tag_scan collection RAW_DTYPES raw_type_only exclude_rses self) = self"
  by (simp add: tag_scan_def Let_def tag_runs_same)

text \<open>
  C3: for every collection of runs, every list of raw data types and both settings of
  \<open>raw_type_only\<close> and every \<open>exclude_rses\<close>, the scan of the tagged runs leaves
  \<open>tagged_dids\<close> and \<open>tagged_on_rse\<close> as they were; starting from \<open>__init__\<close>
  they are still empty.
\<close>

theorem append_never_grows:
  "tagged_dids (fst (tag_scan collection RAW_DTYPES raw_type_only exclude_rses self))
     = tagged_dids self
   \<and> tagged_on_rse (fst (tag_scan collection RAW_DTYPES raw_type_only exclude_rses self))
     = tagged_on_rse self
   \<and> tagged_dids (fst (tag_scan collection RAW_DTYPES raw_type_only exclude_rses init_daemon)) = []
   \<and> tagged_on_rse (fst (tag_scan collection RAW_DTYPES raw_type_only exclude_rses init_daemon)) = []"
  by (simp add: tag_scan_same init_daemon_def)

theorem append_never_grows_witness:
  "tagged_dids (fst (tag_scan
      [\<lparr>tag_names = [''_single_copy''],
        run_data = Some [\<lparr>entry_did = Some ''xnt_007330:raw_records-rfzvpzj4mf'',
                          entry_location = Some ''NIKHEF2_USERDISK''\<rparr>]\<rparr>]
      [''raw_records''] True [''UC_DALI_USERDISK''] init_daemon)) = []
   \<and> try_tag [''raw_records''] True [''UC_DALI_USERDISK''] init_daemon
        \<lparr>entry_did = Some ''xnt_007330:raw_records-rfzvpzj4mf'',
          entry_location = Some ''NIKHEF2_USERDISK''\<rparr> ''xnt_007330:raw_records-rfzvpzj4mf''
      = Inr (tag_pair init_daemon ''xnt_007330:raw_records-rfzvpzj4mf'' ''NIKHEF2_USERDISK'')"
  using append_never_grows [of
      "[\<lparr>tag_names = [''_single_copy''],
        run_data = Some [\<lparr>entry_did = Some ''xnt_007330:raw_records-rfzvpzj4mf'',
                          entry_location = Some ''NIKHEF2_USERDISK''\<rparr>]\<rparr>]"
      "[''raw_records'']" True "[''UC_DALI_USERDISK'']" init_daemon]
  by (simp add: try_tag_def init_daemon_def)

subsection \<open>C9: the report line of \<open>find_single_copy\<close>\<close>

text \<open>
  C9: \<open>find_single_copy\<close> always raises. When its scan of the tagged runs comes to
  its end, the exception is the \<open>NameError\<close> of \<open>tagged_dids\<close> on the report line;
  and \<open>do_task\<close> in mode \<open>single_copy\<close> ends with the same exception without a single
  call of Rucio: neither \<open>find_priority\<close>, which starts with \<open>list_rses()\<close>, nor
  \<open>delete_rule\<close> is reached.
\<close>

theorem single_copy_never_deletes:
  "\<exists>e. find_single_copy collection RAW_DTYPES raw_type_only exclude_rses self = (self, Some e)
      \<and> (snd (tag_scan collection RAW_DTYPES raw_type_only exclude_rses self) = None
           \<longrightarrow> e = NameError ''tagged_dids'')
      \<and> do_task rc collection RAW_DTYPES ''single_copy'' raw_type_only exclude_rses self
           = (self, [], Some e)"
proof -
  obtain s r where ts: "tag_scan collection RAW_DTYPES raw_type_only exclude_rses self = (s, r)"
    by (cases "tag_scan collection RAW_DTYPES raw_type_only exclude_rses self")
  then have s: "s = self"
    using tag_scan_same [of collection RAW_DTYPES raw_type_only exclude_rses self] by simp
  show ?thesis
  proof (cases r)
    case None
    then show ?thesis
      using ts s by (simp add: find_single_copy_def do_task_def)
  next
    case (Some e)
    then show ?thesis
      using ts s by (simp add: find_single_copy_def do_task_def)
  qed
qed

theorem single_copy_never_deletes_witness:
  "do_task
     \<lparr>list_rses = [''A'', ''B''],
      bytes_remaining = (\<lambda>rse. if rse = ''A'' then 500 else 1000),
      get_size_mb = (\<lambda>d. 2048)\<rparr>
     [] [''raw_records''] ''single_copy'' True [''UC_DALI_USERDISK''] init_daemon
   = (init_daemon, [], Some (NameError ''tagged_dids''))"
  using single_copy_never_deletes [of "[]" "[''raw_records'']" True "[''UC_DALI_USERDISK'']"
      init_daemon
      "\<lparr>list_rses = [''A'', ''B''],
      bytes_remaining = (\<lambda>rse. if rse = ''A'' then 500 else 1000),
      get_size_mb = (\<lambda>d. 2048)\<rparr>"]
  by (auto simp add: tag_scan_def)

end
